theory Spec2Isabelle
  imports Complex_Main "HOL-Library.Multiset"
begin

section \<open>Population-density resolution: data model\<close>

text \<open>
  The development embeds the density-resolution functions of \<^verbatim>\<open>src/population_density.py\<close>
  and their copies in \<^verbatim>\<open>src/app.py\<close>, together with \<^verbatim>\<open>determine_rarity\<close> of
  \<^verbatim>\<open>src/app.py\<close>.

  Modelling conventions.
  \<^item> Python values that reach a result dictionary are values of \<open>pyval\<close>. A Python float is
    a \<open>pyfloat\<close>: a finite double, given by its value, an infinity, or NaN (the two zeros,
    which compare equal and are both falsy, are one value). Rounding to the nearest double
    is the field \<open>nearest\<close> of the environment; overflow is written out.
  \<^item> The built-in parsers \<^verbatim>\<open>int(s)\<close> and \<^verbatim>\<open>float(s)\<close> on strings are fields of the
    environment; \<open>None\<close> stands for the \<^verbatim>\<open>ValueError\<close> they raise. Every theorem holds for
    every pair of parsers.
  \<^item> The three web services are functions of the environment from the query to the
    response: a \<^verbatim>\<open>requests.exceptions.RequestException\<close> with its message, or the decoded
    JSON document. The documents are typed by the services' formats: an Overpass element
    has an optional \<^verbatim>\<open>tags\<close> object from strings to strings; a SPARQL binding maps each
    bound variable to the string of its \<^verbatim>\<open>value\<close> member (an unbound variable is absent);
    an entity-search hit carries its \<^verbatim>\<open>id\<close>.
  \<^item> A result dictionary \<^verbatim>\<open>{"error": msg}\<close> is \<open>Inl msg\<close>, a data dictionary is \<open>Inr\<close> of a
    record of its keys.
  \<^item> An exception that leaves a function is \<open>Raised\<close>; a normal return is \<open>Returned\<close>.
  \<^item> Printing and logging are not modelled. The orchestrator also returns the list of
    the helper calls it made, in order.
\<close>

datatype pyfloat = Fin real | PosInf | NegInf | NaN

datatype pyval = PyNone | PyInt int | PyFloat pyfloat | PyStr string

datatype py_exception = ZeroDivisionError | OverflowError

datatype 'a outcome = Raised py_exception | Returned 'a

datatype 'a response = RequestException string | Response 'a

record element =
  tags :: "(string \<rightharpoonup> string) option"

datatype sparql_json = NoResults | NoBindings | Bindings "(string \<rightharpoonup> string) list"

record env =
  int_parse :: "string \<Rightarrow> int option"
  float_parse :: "string \<Rightarrow> pyfloat option"
  nearest :: "real \<Rightarrow> real"
  overpass_get :: "real \<Rightarrow> real \<Rightarrow> element list option response"
  sparql_get :: "string \<Rightarrow> sparql_json response"
  wbsearch_get :: "string option \<Rightarrow> string list option response"

record area =
  name :: "string option"
  wikidata_id :: string
  admin_level :: int

record density_record =
  population :: int
  area_km2 :: pyval
  population_density :: pyval

record resolution = density_record +
  location :: "string option"
  res_admin_level :: int
  res_wikidata_id :: "string option"

datatype event = Locate real real | Fetch string | Search "string option"

section \<open>src/population\_density.py\<close>

subsection \<open>get\_osm\_administrative\_areas\<close>

text \<open>
  \<^verbatim>\<open>try: admin_level = int(element["tags"].get("admin_level", 99))
  except ValueError: admin_level = 99\<close>
\<close>

definition parse_admin_level :: "env \<Rightarrow> (string \<rightharpoonup> string) \<Rightarrow> int" where
  "parse_admin_level e t =
     (case t ''admin_level'' of
        None \<Rightarrow> 99
      | Some s \<Rightarrow> (case int_parse e s of None \<Rightarrow> 99 | Some n \<Rightarrow> n))"

text \<open>
  The body of the \<^verbatim>\<open>for element in data["elements"]\<close> loop: \<open>None\<close> when the
  \<^verbatim>\<open>if "tags" in element and "wikidata" in element["tags"]\<close> test fails, otherwise the
  dictionary that is appended.
\<close>

definition element_area :: "env \<Rightarrow> element \<Rightarrow> area option" where
  "element_area e el =
     (case tags el of
        None \<Rightarrow> None
      | Some t \<Rightarrow>
          (case t ''wikidata'' of
             None \<Rightarrow> None
           | Some q \<Rightarrow>
               Some \<lparr>name = t ''name'', wikidata_id = q,
                     admin_level = parse_admin_level e t\<rparr>))"

fun collect_areas :: "env \<Rightarrow> element list \<Rightarrow> area list \<Rightarrow> area list" where
  "collect_areas e [] areas = areas"
| "collect_areas e (el # els) areas =
     (case element_area e el of
        None \<Rightarrow> collect_areas e els areas
      | Some a \<Rightarrow> collect_areas e els (areas @ [a]))"

text \<open>
  \<^verbatim>\<open>sorted(areas, key=lambda x: x["admin_level"], reverse=True)\<close>: Python's sort is
  stable, also with \<^verbatim>\<open>reverse=True\<close>; on integer keys that is the stable ascending sort
  on the negated key.
\<close>

definition sorted_reverse :: "area list \<Rightarrow> area list" where
  "sorted_reverse areas = sort_key (\<lambda>x. - admin_level x) areas"

definition get_osm_administrative_areas :: "env \<Rightarrow> real \<Rightarrow> real \<Rightarrow> area list" where
  "get_osm_administrative_areas e lat lon =
     (case overpass_get e lat lon of
        RequestException m \<Rightarrow> []
      | Response data \<Rightarrow>
          (case data of
             None \<Rightarrow> []
           | Some elements \<Rightarrow>
               if length elements > 0 then sorted_reverse (collect_areas e elements [])
               else []))"

subsection \<open>get\_population\_and\_area\_wikidata\<close>

text \<open>
  The largest double is \<open>2 ^ 1024 - 2 ^ 971\<close>. A number whose magnitude is at least
  \<open>2 ^ 1024 - 2 ^ 970\<close>, half an ulp above it, rounds beyond it.
\<close>

definition overflows :: "real \<Rightarrow> bool" where
  "overflows x \<longleftrightarrow> 2 ^ 1024 - 2 ^ 970 \<le> \<bar>x\<bar>"

text \<open>The conversion of an int to a float; it raises when the int is too large.\<close>

definition int_to_float :: "env \<Rightarrow> int \<Rightarrow> pyfloat outcome" where
  "int_to_float e i =
     (if overflows (real_of_int i) then Raised OverflowError
      else Returned (Fin (nearest e (real_of_int i))))"

text \<open>
  Float division by a divisor other than zero: the quotient rounded to the nearest
  double, an infinity when it rounds beyond the largest double, and the IEEE results for
  infinities and NaN. Division of floats does not raise on overflow.
\<close>

fun float_div :: "env \<Rightarrow> pyfloat \<Rightarrow> pyfloat \<Rightarrow> pyfloat" where
  "float_div e NaN b = NaN"
| "float_div e a NaN = NaN"
| "float_div e (Fin x) (Fin y) =
     (if overflows (x / y) then (if 0 < x / y then PosInf else NegInf)
      else Fin (nearest e (x / y)))"
| "float_div e (Fin x) PosInf = Fin 0"
| "float_div e (Fin x) NegInf = Fin 0"
| "float_div e PosInf (Fin y) = (if 0 < y then PosInf else NegInf)"
| "float_div e NegInf (Fin y) = (if 0 < y then NegInf else PosInf)"
| "float_div e PosInf PosInf = NaN"
| "float_div e PosInf NegInf = NaN"
| "float_div e NegInf PosInf = NaN"
| "float_div e NegInf NegInf = NaN"

text \<open>
  Python's \<^verbatim>\<open>population / area\<close> on an int and a float: the int is converted first, then
  a zero divisor raises, then the floats are divided.
\<close>

definition py_truediv :: "env \<Rightarrow> int \<Rightarrow> pyfloat \<Rightarrow> pyfloat outcome" where
  "py_truediv e p a =
     (case int_to_float e p of
        Raised x \<Rightarrow> Raised x
      | Returned x \<Rightarrow>
          if a = Fin 0 then Raised ZeroDivisionError else Returned (float_div e x a))"

text \<open>
  \<^verbatim>\<open>area = None
  if "area" in result:
      try: area = float(result["area"]["value"])
      except ValueError: area = None\<close>
\<close>

definition parse_area :: "env \<Rightarrow> (string \<rightharpoonup> string) \<Rightarrow> pyfloat option" where
  "parse_area e result =
     (case result ''area'' of None \<Rightarrow> None | Some s \<Rightarrow> float_parse e s)"

text \<open>
  Truthiness of \<^verbatim>\<open>area\<close> in \<^verbatim>\<open>if area:\<close>: neither \<^verbatim>\<open>None\<close> nor zero. Infinities and NaN
  are truthy.
\<close>

definition truthy :: "pyfloat option \<Rightarrow> bool" where
  "truthy area = (case area of None \<Rightarrow> False | Some a \<Rightarrow> a \<noteq> Fin 0)"

definition unknown_area :: "int \<Rightarrow> density_record" where
  "unknown_area p =
     \<lparr>population = p, area_km2 = PyStr ''Unknown'',
      population_density = PyStr ''Cannot calculate (no area data)''\<rparr>"

text \<open>The statements after \<^verbatim>\<open>population\<close> has been parsed.\<close>

definition density_of ::
  "env \<Rightarrow> int \<Rightarrow> pyfloat option \<Rightarrow> (string + density_record) outcome" where
  "density_of e p area =
     (if truthy area then
        (case area of
           None \<Rightarrow> Returned (Inr (unknown_area p))
         | Some a \<Rightarrow>
             (case py_truediv e p a of
                Raised x \<Rightarrow> Raised x
              | Returned density \<Rightarrow>
                  Returned (Inr \<lparr>population = p, area_km2 = PyFloat a,
                                 population_density = PyFloat density\<rparr>)))
      else Returned (Inr (unknown_area p)))"

definition get_population_and_area_wikidata ::
  "env \<Rightarrow> string \<Rightarrow> (string + density_record) outcome" where
  "get_population_and_area_wikidata e wid =
     (case sparql_get e wid of
        RequestException m \<Rightarrow> Returned (Inl (''Request failed: '' @ m))
      | Response data \<Rightarrow>
          (case data of
             Bindings (result # rest) \<Rightarrow>
               (case result ''population'' of
                  None \<Rightarrow> Returned (Inl ''Population data is not in a valid format.'')
                | Some s \<Rightarrow>
                    (case int_parse e s of
                       None \<Rightarrow> Returned (Inl ''Population data is not in a valid format.'')
                     | Some p \<Rightarrow> density_of e p (parse_area e result)))
           | _ \<Rightarrow> Returned (Inl ''No population or area data found for this Wikidata ID.'')))"

subsection \<open>search\_alternative\_wikidata\_ids\<close>

definition search_alternative_wikidata_ids :: "env \<Rightarrow> string option \<Rightarrow> string list" where
  "search_alternative_wikidata_ids e area_name =
     (case wbsearch_get e area_name of
        RequestException m \<Rightarrow> []
      | Response data \<Rightarrow> (case data of None \<Rightarrow> [] | Some results \<Rightarrow> results))"

subsection \<open>get\_population\_density\<close>

type_synonym resolved = "(string + resolution) outcome"

definition found :: "area \<Rightarrow> density_record \<Rightarrow> string option \<Rightarrow> resolution" where
  "found a d alt =
     \<lparr>population = population d, area_km2 = area_km2 d,
      population_density = population_density d,
      location = name a, res_admin_level = admin_level a, res_wikidata_id = alt\<rparr>"

text \<open>
  The inner loop \<^verbatim>\<open>for alt_id in alternatives\<close>. The first component is \<open>None\<close> when the
  loop ends without a \<^verbatim>\<open>return\<close>.
\<close>

fun try_alternatives :: "env \<Rightarrow> area \<Rightarrow> string list \<Rightarrow> resolved option \<times> event list" where
  "try_alternatives e a [] = (None, [])"
| "try_alternatives e a (alt_id # alts) =
     (if alt_id = wikidata_id a then try_alternatives e a alts
      else
        (case get_population_and_area_wikidata e alt_id of
           Raised x \<Rightarrow> (Some (Raised x), [Fetch alt_id])
         | Returned (Inr d) \<Rightarrow> (Some (Returned (Inr (found a d (Some alt_id)))), [Fetch alt_id])
         | Returned (Inl err) \<Rightarrow>
             (case try_alternatives e a alts of (r, tr) \<Rightarrow> (r, Fetch alt_id # tr))))"

text \<open>The outer loop \<^verbatim>\<open>for area in areas\<close> and the \<^verbatim>\<open>return\<close> after it.\<close>

fun try_areas :: "env \<Rightarrow> area list \<Rightarrow> resolved \<times> event list" where
  "try_areas e [] =
     (Returned (Inl ''Could not fetch population or area data from Wikidata for any administrative area.''), [])"
| "try_areas e (a # as) =
     (case get_population_and_area_wikidata e (wikidata_id a) of
        Raised x \<Rightarrow> (Raised x, [Fetch (wikidata_id a)])
      | Returned (Inr d) \<Rightarrow> (Returned (Inr (found a d None)), [Fetch (wikidata_id a)])
      | Returned (Inl err) \<Rightarrow>
          (case try_alternatives e a (search_alternative_wikidata_ids e (name a)) of
             (Some r, tr) \<Rightarrow> (r, Fetch (wikidata_id a) # Search (name a) # tr)
           | (None, tr) \<Rightarrow>
               (case try_areas e as of
                  (r, tr') \<Rightarrow> (r, Fetch (wikidata_id a) # Search (name a) # tr @ tr'))))"

definition get_population_density :: "env \<Rightarrow> real \<Rightarrow> real \<Rightarrow> resolved \<times> event list" where
  "get_population_density e lat lon =
     (let areas = get_osm_administrative_areas e lat lon in
      if areas = [] then
        (Returned (Inl ''No administrative areas found for this location.''), [Locate lat lon])
      else (case try_areas e areas of (r, tr) \<Rightarrow> (r, Locate lat lon # tr)))"

section \<open>src/app.py\<close>

text \<open>
  The copies of the four functions in \<^verbatim>\<open>src/app.py\<close>, embedded from that file on their
  own, and \<^verbatim>\<open>determine_rarity\<close>, which only that file has.
\<close>

fun app_collect_areas :: "env \<Rightarrow> element list \<Rightarrow> area list \<Rightarrow> area list" where
  "app_collect_areas e [] areas = areas"
| "app_collect_areas e (el # els) areas =
     (case tags el of
        None \<Rightarrow> app_collect_areas e els areas
      | Some t \<Rightarrow>
          (case t ''wikidata'' of
             None \<Rightarrow> app_collect_areas e els areas
           | Some q \<Rightarrow>
               app_collect_areas e els
                 (areas @
                  [\<lparr>name = t ''name'', wikidata_id = q,
                    admin_level =
                      (case t ''admin_level'' of
                         None \<Rightarrow> 99
                       | Some s \<Rightarrow> (case int_parse e s of None \<Rightarrow> 99 | Some n \<Rightarrow> n))\<rparr>])))"

definition app_get_osm_administrative_areas :: "env \<Rightarrow> real \<Rightarrow> real \<Rightarrow> area list" where
  "app_get_osm_administrative_areas e lat lon =
     (case overpass_get e lat lon of
        RequestException m \<Rightarrow> []
      | Response data \<Rightarrow>
          (case data of
             None \<Rightarrow> []
           | Some elements \<Rightarrow>
               if length elements > 0
               then sort_key (\<lambda>x. - admin_level x) (app_collect_areas e elements [])
               else []))"

definition app_get_population_and_area_wikidata ::
  "env \<Rightarrow> string \<Rightarrow> (string + density_record) outcome" where
  "app_get_population_and_area_wikidata e wid =
     (case sparql_get e wid of
        RequestException m \<Rightarrow> Returned (Inl (''Request failed: '' @ m))
      | Response data \<Rightarrow>
          (case data of
             Bindings (result # rest) \<Rightarrow>
               (case result ''population'' of
                  None \<Rightarrow> Returned (Inl ''Population data is not valid.'')
                | Some s \<Rightarrow>
                    (case int_parse e s of
                       None \<Rightarrow> Returned (Inl ''Population data is not valid.'')
                     | Some p \<Rightarrow>
                         (let area =
                                (case result ''area'' of
                                   None \<Rightarrow> None
                                 | Some v \<Rightarrow> float_parse e v)
                          in case area of
                               None \<Rightarrow>
                                 Returned (Inr \<lparr>population = p, area_km2 = PyStr ''Unknown'',
                                   population_density = PyStr ''Cannot calculate (no area data)''\<rparr>)
                             | Some a \<Rightarrow>
                                 if a \<noteq> Fin 0 then
                                   (case py_truediv e p a of
                                      Raised x \<Rightarrow> Raised x
                                    | Returned density \<Rightarrow>
                                        Returned (Inr \<lparr>population = p, area_km2 = PyFloat a,
                                          population_density = PyFloat density\<rparr>))
                                 else
                                   Returned (Inr \<lparr>population = p, area_km2 = PyStr ''Unknown'',
                                     population_density =
                                       PyStr ''Cannot calculate (no area data)''\<rparr>))))
           | _ \<Rightarrow> Returned (Inl ''No population or area data found for this Wikidata ID.'')))"

definition app_search_alternative_wikidata_ids :: "env \<Rightarrow> string option \<Rightarrow> string list" where
  "app_search_alternative_wikidata_ids e area_name =
     (case wbsearch_get e area_name of
        RequestException m \<Rightarrow> []
      | Response data \<Rightarrow> (case data of None \<Rightarrow> [] | Some results \<Rightarrow> results))"

fun app_try_alternatives ::
  "env \<Rightarrow> area \<Rightarrow> string list \<Rightarrow> resolved option \<times> event list" where
  "app_try_alternatives e a [] = (None, [])"
| "app_try_alternatives e a (alt_id # alts) =
     (if alt_id = wikidata_id a then app_try_alternatives e a alts
      else
        (case app_get_population_and_area_wikidata e alt_id of
           Raised x \<Rightarrow> (Some (Raised x), [Fetch alt_id])
         | Returned (Inr d) \<Rightarrow>
             (Some (Returned (Inr
                \<lparr>population = population d, area_km2 = area_km2 d,
                 population_density = population_density d,
                 location = name a, res_admin_level = admin_level a,
                 res_wikidata_id = Some alt_id\<rparr>)), [Fetch alt_id])
         | Returned (Inl err) \<Rightarrow>
             (case app_try_alternatives e a alts of (r, tr) \<Rightarrow> (r, Fetch alt_id # tr))))"

fun app_try_areas :: "env \<Rightarrow> area list \<Rightarrow> resolved \<times> event list" where
  "app_try_areas e [] =
     (Returned (Inl ''Could not fetch population or area data from Wikidata for any administrative area.''), [])"
| "app_try_areas e (a # as) =
     (case app_get_population_and_area_wikidata e (wikidata_id a) of
        Raised x \<Rightarrow> (Raised x, [Fetch (wikidata_id a)])
      | Returned (Inr d) \<Rightarrow>
          (Returned (Inr
             \<lparr>population = population d, area_km2 = area_km2 d,
              population_density = population_density d,
              location = name a, res_admin_level = admin_level a,
              res_wikidata_id = None\<rparr>), [Fetch (wikidata_id a)])
      | Returned (Inl err) \<Rightarrow>
          (case app_try_alternatives e a (app_search_alternative_wikidata_ids e (name a)) of
             (Some r, tr) \<Rightarrow> (r, Fetch (wikidata_id a) # Search (name a) # tr)
           | (None, tr) \<Rightarrow>
               (case app_try_areas e as of
                  (r, tr') \<Rightarrow> (r, Fetch (wikidata_id a) # Search (name a) # tr @ tr'))))"

definition app_get_population_density ::
  "env \<Rightarrow> real \<Rightarrow> real \<Rightarrow> resolved \<times> event list" where
  "app_get_population_density e lat lon =
     (let areas = app_get_osm_administrative_areas e lat lon in
      if areas = [] then
        (Returned (Inl ''No administrative areas found for this location.''), [Locate lat lon])
      else (case app_try_areas e areas of (r, tr) \<Rightarrow> (r, Locate lat lon # tr)))"

subsection \<open>determine\_rarity\<close>

text \<open>\<^verbatim>\<open>isinstance(population_density, (int, float))\<close>\<close>

fun is_number :: "pyval \<Rightarrow> bool" where
  "is_number (PyInt i) = True"
| "is_number (PyFloat f) = True"
| "is_number PyNone = False"
| "is_number (PyStr s) = False"

text \<open>\<^verbatim>\<open>x < c\<close> for a float \<open>x\<close> and an int \<open>c\<close>: exact, and false when \<open>x\<close> is NaN.\<close>

fun float_less :: "pyfloat \<Rightarrow> int \<Rightarrow> bool" where
  "float_less (Fin x) c = (x < real_of_int c)"
| "float_less NegInf c = True"
| "float_less PosInf c = False"
| "float_less NaN c = False"

text \<open>
  \<^verbatim>\<open>population_density < c\<close>. The function evaluates it on numbers only, after the
  \<^verbatim>\<open>isinstance\<close> test.
\<close>

fun less_than :: "pyval \<Rightarrow> int \<Rightarrow> bool" where
  "less_than (PyInt i) c = (i < c)"
| "less_than (PyFloat f) c = float_less f c"
| "less_than PyNone c = False"
| "less_than (PyStr s) c = False"

definition determine_rarity :: "pyval \<Rightarrow> int option" where
  "determine_rarity v =
     (if \<not> is_number v then None
      else if less_than v 25 then Some 1
      else if less_than v 100 then Some 2
      else if less_than v 500 then Some 3
      else Some 4)"

section \<open>Predicates used in the statements\<close>

text \<open>The test \<^verbatim>\<open>"tags" in element and "wikidata" in element["tags"]\<close> of the loop.\<close>

definition retained :: "element \<Rightarrow> bool" where
  "retained el = (case tags el of None \<Rightarrow> False | Some t \<Rightarrow> t ''wikidata'' \<noteq> None)"

text \<open>The test \<^verbatim>\<open>"error" in population_data\<close> on the result of a fetch.\<close>

definition invalid :: "env \<Rightarrow> string \<Rightarrow> bool" where
  "invalid e q =
     (case get_population_and_area_wikidata e q of
        Returned (Inl m) \<Rightarrow> True
      | _ \<Rightarrow> False)"

text \<open>
  Every call of \<^verbatim>\<open>get_population_and_area_wikidata\<close> that the two loops can make on
  these areas (the identifier of each area, and each search hit for its name that differs
  from that identifier) returns an error dictionary.
\<close>

definition all_invalid :: "env \<Rightarrow> area list \<Rightarrow> bool" where
  "all_invalid e as \<longleftrightarrow>
     (\<forall>a\<in>set as.
        invalid e (wikidata_id a) \<and>
        (\<forall>q\<in>set (search_alternative_wikidata_ids e (name a)).
           q \<noteq> wikidata_id a \<longrightarrow> invalid e q))"

section \<open>Sample environments\<close>

text \<open>
  Concrete upstream responses on which the theorems below are instantiated. The sample
  parsers agree with \<^verbatim>\<open>int\<close> and \<^verbatim>\<open>float\<close> on the listed strings; \<open>huge_population\<close> is
  the digit 2 followed by 308 zeros. The sample rounding is the identity, which is the
  rounding to the nearest double on the doubles themselves.
\<close>

definition huge_population :: string where
  "huge_population = CHR ''2'' # replicate 308 (CHR ''0'')"

definition sample_int :: "string \<Rightarrow> int option" where
  "sample_int s =
     (case map_of [(''8'', 8), (''4'', 4), (''100'', 100), (''500000'', 500000)] s of
        Some n \<Rightarrow> Some n
      | None \<Rightarrow> if s = huge_population then Some (2 * 10 ^ 308) else None)"

definition sample_float :: "string \<Rightarrow> pyfloat option" where
  "sample_float =
     map_of [(''4'', Fin 4), (''-4'', Fin (- 4)), (''0'', Fin 0), (''2'', Fin 2),
       (''1000.0'', Fin 1000), (''nan'', NaN)]"

definition sample_elements :: "element list" where
  "sample_elements =
     [\<lparr>tags = Some [''name'' \<mapsto> ''Beta'', ''wikidata'' \<mapsto> ''Q2'', ''admin_level'' \<mapsto> ''4'']\<rparr>,
      \<lparr>tags = None\<rparr>,
      \<lparr>tags = Some [''name'' \<mapsto> ''Alpha'', ''wikidata'' \<mapsto> ''Q1'', ''admin_level'' \<mapsto> ''8'']\<rparr>]"

definition sample_env :: "string list \<Rightarrow> env" where
  "sample_env alts =
     \<lparr>int_parse = sample_int, float_parse = sample_float, nearest = (\<lambda>x. x),
      overpass_get = (\<lambda>lat lon. Response (Some sample_elements)),
      sparql_get = (\<lambda>q.
        if q = ''Q9'' then Response (Bindings [[''population'' \<mapsto> ''500000'', ''area'' \<mapsto> ''1000.0'']])
        else if q = ''Q2'' then Response (Bindings [[''population'' \<mapsto> ''100'']])
        else if q = ''Q7'' then RequestException ''timed out''
        else if q = ''Q3'' then Response (Bindings [[''population'' \<mapsto> ''many'', ''area'' \<mapsto> ''4'']])
        else if q = ''Q0'' then Response (Bindings [[''population'' \<mapsto> ''100'', ''area'' \<mapsto> ''0'']])
        else if q = ''Q5'' then Response (Bindings [[''population'' \<mapsto> ''100'', ''area'' \<mapsto> ''-4'']])
        else if q = ''Q8'' then Response (Bindings [[''population'' \<mapsto> huge_population, ''area'' \<mapsto> ''2'']])
        else Response (Bindings [])),
      wbsearch_get = (\<lambda>n. if n = Some ''Alpha'' then Response (Some alts) else Response None)\<rparr>"

text \<open>
  An element list with a missing and an unparsable \<^verbatim>\<open>admin_level\<close>, and one with an
  element that has a \<^verbatim>\<open>wikidata\<close> tag and no \<^verbatim>\<open>name\<close> tag.
\<close>

definition unlevelled_elements :: "element list" where
  "unlevelled_elements =
     [\<lparr>tags = Some [''name'' \<mapsto> ''Beta'', ''wikidata'' \<mapsto> ''Q2'', ''admin_level'' \<mapsto> ''4'']\<rparr>,
      \<lparr>tags = Some [''name'' \<mapsto> ''Gamma'', ''wikidata'' \<mapsto> ''Q3'']\<rparr>,
      \<lparr>tags = Some [''name'' \<mapsto> ''Alpha'', ''wikidata'' \<mapsto> ''Q1'', ''admin_level'' \<mapsto> ''8'']\<rparr>,
      \<lparr>tags = Some [''name'' \<mapsto> ''Delta'', ''wikidata'' \<mapsto> ''Q4'', ''admin_level'' \<mapsto> ''x'']\<rparr>]"

definition nameless_elements :: "element list" where
  "nameless_elements =
     [\<lparr>tags = Some [''wikidata'' \<mapsto> ''Q1'']\<rparr>,
      \<lparr>tags = Some [''name'' \<mapsto> ''Beta'']\<rparr>,
      \<lparr>tags = None\<rparr>]"

text \<open>An environment in which every record has the population \<open>huge_population\<close>.\<close>

definition overflow_env :: env where
  "overflow_env =
     (sample_env [])\<lparr>sparql_get :=
        \<lambda>q. Response (Bindings [[''population'' \<mapsto> huge_population, ''area'' \<mapsto> ''2'']])\<rparr>"

definition area_A :: area where
  "area_A = \<lparr>name = Some ''Alpha'', wikidata_id = ''Q1'', admin_level = 8\<rparr>"

definition area_B :: area where
  "area_B = \<lparr>name = Some ''Beta'', wikidata_id = ''Q2'', admin_level = 4\<rparr>"

section \<open>The two copies agree\<close>

lemma collect_areas_append:
  "collect_areas e els acc = acc @ List.map_filter (element_area e) els"
  by (induction els arbitrary: acc) (auto simp: List.map_filter_simps split: option.splits)

lemma app_collect_areas_eq: "app_collect_areas e els acc = collect_areas e els acc"
  by (induction els arbitrary: acc)
     (auto simp: element_area_def parse_admin_level_def split: option.splits)

lemma app_osm_eq: "app_get_osm_administrative_areas e lat lon = get_osm_administrative_areas e lat lon"
  by (simp add: app_get_osm_administrative_areas_def get_osm_administrative_areas_def
      sorted_reverse_def app_collect_areas_eq split: response.splits option.splits)

lemma app_search_eq: "app_search_alternative_wikidata_ids e n = search_alternative_wikidata_ids e n"
  by (simp add: app_search_alternative_wikidata_ids_def search_alternative_wikidata_ids_def)


lemma density_of_eq:
  "density_of e p area =
     (case area of
        None \<Rightarrow> Returned (Inr (unknown_area p))
      | Some a \<Rightarrow>
          if a = Fin 0 then Returned (Inr (unknown_area p))
          else
            (case int_to_float e p of
               Raised x \<Rightarrow> Raised x
             | Returned x \<Rightarrow>
                 Returned (Inr \<lparr>population = p, area_km2 = PyFloat a,
                   population_density = PyFloat (float_div e x a)\<rparr>)))"
  by (simp add: density_of_def truthy_def py_truediv_def split: option.splits outcome.splits)

lemma int_to_float_cases:
  "int_to_float e p = Raised OverflowError \<or> (\<exists>x. int_to_float e p = Returned x)"
  by (simp add: int_to_float_def)

lemma density_of_cases:
  "density_of e p area = Raised OverflowError \<or> (\<exists>d. density_of e p area = Returned (Inr d))"
  using int_to_float_cases [of e p]
  by (auto simp: density_of_eq split: option.splits)

lemma fetch_parsed:
  "sparql_get e wid = Response (Bindings (r # rest)) \<Longrightarrow> r ''population'' = Some s \<Longrightarrow>
   int_parse e s = Some p \<Longrightarrow>
   get_population_and_area_wikidata e wid = density_of e p (parse_area e r)"
  by (simp add: get_population_and_area_wikidata_def)

lemma app_fetch_parsed:
  "sparql_get e wid = Response (Bindings (r # rest)) \<Longrightarrow> r ''population'' = Some s \<Longrightarrow>
   int_parse e s = Some p \<Longrightarrow>
   app_get_population_and_area_wikidata e wid = density_of e p (parse_area e r)"
  by (simp add: app_get_population_and_area_wikidata_def density_of_eq parse_area_def
      unknown_area_def py_truediv_def split: option.splits outcome.splits)

text \<open>
  The two copies of the fetch differ only in the wording of the invalid-population
  message.
\<close>

lemma app_fetch_eq:
  "app_get_population_and_area_wikidata e wid =
     (if get_population_and_area_wikidata e wid =
           Returned (Inl ''Population data is not in a valid format.'')
      then Returned (Inl ''Population data is not valid.'')
      else get_population_and_area_wikidata e wid)"
proof (cases "sparql_get e wid")
  case (RequestException m)
  then show ?thesis
    by (simp add: get_population_and_area_wikidata_def app_get_population_and_area_wikidata_def)
next
  case (Response data)
  show ?thesis
  proof (cases data)
    case NoResults
    with Response show ?thesis
      by (simp add: get_population_and_area_wikidata_def app_get_population_and_area_wikidata_def)
  next
    case NoBindings
    with Response show ?thesis
      by (simp add: get_population_and_area_wikidata_def app_get_population_and_area_wikidata_def)
  next
    case (Bindings bs)
    show ?thesis
    proof (cases bs)
      case Nil
      with Response Bindings show ?thesis
        by (simp add: get_population_and_area_wikidata_def
            app_get_population_and_area_wikidata_def)
    next
      case (Cons r rest)
      with Response Bindings have sp: "sparql_get e wid = Response (Bindings (r # rest))"
        by simp
      show ?thesis
      proof (cases "r ''population''")
        case None
        with sp show ?thesis
          by (simp add: get_population_and_area_wikidata_def
              app_get_population_and_area_wikidata_def)
      next
        case (Some s)
        show ?thesis
        proof (cases "int_parse e s")
          case None
          with sp Some show ?thesis
            by (simp add: get_population_and_area_wikidata_def
                app_get_population_and_area_wikidata_def)
        next
          case (Some p)
          note eqs = fetch_parsed [OF sp \<open>r ''population'' = Some s\<close> Some]
            app_fetch_parsed [OF sp \<open>r ''population'' = Some s\<close> Some]
          from density_of_cases [of e p "parse_area e r"] show ?thesis
            unfolding eqs by (elim disjE exE) simp_all
        qed
      qed
    qed
  qed
qed

lemma app_fetch_data:
  "app_get_population_and_area_wikidata e wid = Returned (Inr d) \<longleftrightarrow>
   get_population_and_area_wikidata e wid = Returned (Inr d)"
  by (simp add: app_fetch_eq)

lemma app_fetch_raised:
  "app_get_population_and_area_wikidata e wid = Raised x \<longleftrightarrow>
   get_population_and_area_wikidata e wid = Raised x"
  by (simp add: app_fetch_eq)

lemma fetch_cases:
  obtains (Error) m m' where "get_population_and_area_wikidata e q = Returned (Inl m)"
      "app_get_population_and_area_wikidata e q = Returned (Inl m')"
  | (Data) d where "get_population_and_area_wikidata e q = Returned (Inr d)"
      "app_get_population_and_area_wikidata e q = Returned (Inr d)"
  | (Exception) x where "get_population_and_area_wikidata e q = Raised x"
      "app_get_population_and_area_wikidata e q = Raised x"
proof (cases "get_population_and_area_wikidata e q")
  case (Raised x)
  then show ?thesis using Exception app_fetch_raised by simp
next
  case (Returned r)
  show ?thesis
  proof (cases r)
    case (Inl m)
    with Returned have "\<exists>m'. app_get_population_and_area_wikidata e q = Returned (Inl m')"
      by (simp add: app_fetch_eq)
    then obtain m' where "app_get_population_and_area_wikidata e q = Returned (Inl m')" ..
    with Returned Inl show ?thesis using Error by simp
  next
    case (Inr d)
    with Returned show ?thesis using Data app_fetch_data by simp
  qed
qed

lemma app_try_alternatives_eq: "app_try_alternatives e a alts = try_alternatives e a alts"
proof (induction alts)
  case Nil
  show ?case by simp
next
  case (Cons q alts)
  show ?case
  proof (cases "q = wikidata_id a")
    case True
    with Cons show ?thesis by simp
  next
    case False
    show ?thesis
    proof (cases e q rule: fetch_cases)
      case (Error m m')
      with False Cons show ?thesis by simp
    next
      case (Data d)
      with False show ?thesis by (simp add: found_def)
    next
      case (Exception x)
      with False show ?thesis by simp
    qed
  qed
qed

lemma app_try_areas_eq: "app_try_areas e as = try_areas e as"
proof (induction as)
  case Nil
  show ?case by simp
next
  case (Cons a as)
  show ?case
  proof (cases e "wikidata_id a" rule: fetch_cases)
    case (Error m m')
    with Cons show ?thesis
      by (simp add: app_try_alternatives_eq app_search_eq split: prod.splits option.splits)
  next
    case (Data d)
    then show ?thesis by (simp add: found_def)
  next
    case (Exception x)
    then show ?thesis by simp
  qed
qed

lemma try_alternatives_all_fail:
  "(\<forall>q\<in>set alts. q \<noteq> wikidata_id a \<longrightarrow>
      (\<exists>m. get_population_and_area_wikidata e q = Returned (Inl m))) \<Longrightarrow>
   try_alternatives e a alts = (None, map Fetch (filter (\<lambda>q. q \<noteq> wikidata_id a) alts))"
  by (induction alts) auto


lemma try_alternatives_None:
  "try_alternatives e a alts = (None, tr) \<Longrightarrow>
   (\<forall>q\<in>set alts. q \<noteq> wikidata_id a \<longrightarrow>
      (\<exists>m. get_population_and_area_wikidata e q = Returned (Inl m)))"
proof (induction alts arbitrary: tr)
  case Nil
  show ?case by simp
next
  case (Cons q alts)
  show ?case
  proof (cases "q = wikidata_id a")
    case True
    with Cons show ?thesis by simp
  next
    case False
    show ?thesis
    proof (cases e q rule: fetch_cases)
      case (Error m m')
      with False Cons.prems obtain tr' where "try_alternatives e a alts = (None, tr')"
        by (auto split: prod.splits)
      with Cons.IH Error show ?thesis by auto
    next
      case (Data d)
      with False Cons.prems show ?thesis by simp
    next
      case (Exception x)
      with False Cons.prems show ?thesis by simp
    qed
  qed
qed

lemma try_alternatives_no_error:
  "try_alternatives e a alts = (Some r, tr) \<Longrightarrow> r \<noteq> Returned (Inl m)"
proof (induction alts arbitrary: tr)
  case Nil
  then show ?case by simp
next
  case (Cons q alts)
  show ?case
  proof (cases "q = wikidata_id a")
    case True
    with Cons show ?thesis by simp
  next
    case False
    show ?thesis
    proof (cases e q rule: fetch_cases)
      case (Error m m')
      with False Cons.prems obtain tr' where "try_alternatives e a alts = (Some r, tr')"
        by (auto split: prod.splits)
      with Cons.IH show ?thesis by blast
    next
      case (Data d)
      with False Cons.prems show ?thesis by auto
    next
      case (Exception x)
      with False Cons.prems show ?thesis by auto
    qed
  qed
qed

lemma invalid_iff:
  "invalid e q \<longleftrightarrow> (\<exists>m. get_population_and_area_wikidata e q = Returned (Inl m))"
  by (auto simp: invalid_def split: outcome.splits sum.splits)

lemma try_areas_all_invalid:
  "all_invalid e as \<Longrightarrow>
   fst (try_areas e as) =
     Returned (Inl ''Could not fetch population or area data from Wikidata for any administrative area.'')"
proof (induction as)
  case Nil
  show ?case by simp
next
  case (Cons a as)
  from Cons.prems obtain m where
    m: "get_population_and_area_wikidata e (wikidata_id a) = Returned (Inl m)"
    and alts: "\<forall>q\<in>set (search_alternative_wikidata_ids e (name a)). q \<noteq> wikidata_id a \<longrightarrow>
      (\<exists>m. get_population_and_area_wikidata e q = Returned (Inl m))"
    and rest: "all_invalid e as"
    by (auto simp: all_invalid_def invalid_iff)
  from try_alternatives_all_fail [OF alts] m Cons.IH [OF rest] show ?case
    by (cases "try_areas e as") simp
qed

lemma try_areas_error:
  "fst (try_areas e as) = Returned (Inl m) \<Longrightarrow>
   m = ''Could not fetch population or area data from Wikidata for any administrative area.'' \<and>
   all_invalid e as"
proof (induction as)
  case Nil
  then show ?case by (simp add: all_invalid_def)
next
  case (Cons a as)
  show ?case
  proof (cases e "wikidata_id a" rule: fetch_cases)
    case (Data d)
    with Cons.prems show ?thesis by simp
  next
    case (Exception x)
    with Cons.prems show ?thesis by simp
  next
    case (Error m1 m2)
    obtain r tr where alt:
      "try_alternatives e a (search_alternative_wikidata_ids e (name a)) = (r, tr)"
      by (cases "try_alternatives e a (search_alternative_wikidata_ids e (name a))")
    show ?thesis
    proof (cases r)
      case None
      with alt have fails:
        "\<forall>q\<in>set (search_alternative_wikidata_ids e (name a)). q \<noteq> wikidata_id a \<longrightarrow>
           (\<exists>m. get_population_and_area_wikidata e q = Returned (Inl m))"
        using try_alternatives_None by blast
      have "fst (try_areas e (a # as)) = fst (try_areas e as)"
        using Error alt None by (simp split: prod.splits)
      with Cons have "m = ''Could not fetch population or area data from Wikidata for any administrative area.'' \<and>
        all_invalid e as"
        by simp
      with fails Error show ?thesis by (auto simp: all_invalid_def invalid_iff)
    next
      case (Some x)
      with alt have "x \<noteq> Returned (Inl m)"
        using try_alternatives_no_error by blast
      moreover have "fst (try_areas e (a # as)) = x"
        using Error alt Some by simp
      ultimately show ?thesis using Cons.prems by simp
    qed
  qed
qed

section \<open>Boundary lookup\<close>

lemma osm_response:
  "overpass_get e lat lon = Response (Some els) \<Longrightarrow>
   get_osm_administrative_areas e lat lon = sorted_reverse (List.map_filter (element_area e) els)"
  by (cases els) (simp_all add: get_osm_administrative_areas_def collect_areas_append
      sorted_reverse_def List.map_filter_simps)

lemma osm_no_elements:
  "overpass_get e lat lon = RequestException m \<or> overpass_get e lat lon = Response None \<Longrightarrow>
   get_osm_administrative_areas e lat lon = []"
  by (auto simp: get_osm_administrative_areas_def)

lemma osm_shape:
  "\<exists>as. get_osm_administrative_areas e lat lon = sorted_reverse as"
  by (auto simp: get_osm_administrative_areas_def sorted_reverse_def
      split: response.splits option.splits intro: exI [of _ "[]"])

lemma sorted_reverse_desc:
  "sorted_wrt (\<lambda>a b. admin_level b \<le> admin_level a) (sorted_reverse as)"
proof -
  have "sorted (map (\<lambda>x. - admin_level x) (sorted_reverse as))"
    by (simp add: sorted_reverse_def)
  then show ?thesis
    by (simp add: sorted_map sorted_wrt_iff_nth_less)
qed

lemma sorted_reverse_stable:
  "filter (\<lambda>a. admin_level a = k) (sorted_reverse as) = filter (\<lambda>a. admin_level a = k) as"
proof -
  have "filter (\<lambda>a. - admin_level a = - k) (sort_key (\<lambda>x. - admin_level x) as) =
        filter (\<lambda>a. - admin_level a = - k) as"
    by (rule sort_key_stable)
  then show ?thesis by (simp add: sorted_reverse_def)
qed

lemma sentinel_first:
  assumes "sorted_wrt (\<lambda>a b. admin_level b \<le> admin_level a) ys"
    and "i < length ys" "j < length ys"
    and "admin_level (ys ! i) = 99" "admin_level (ys ! j) < 99"
  shows "i < j"
proof (rule ccontr)
  assume "\<not> i < j"
  then have "j < i \<or> i = j" by auto
  then show False
  proof
    assume "j < i"
    with assms(1,2) have "admin_level (ys ! i) \<le> admin_level (ys ! j)"
      by (simp add: sorted_wrt_iff_nth_less)
    with assms(4,5) show False by simp
  next
    assume "i = j"
    with assms(4,5) show False by simp
  qed
qed

lemma element_area_level:
  "element_area e el = Some a \<Longrightarrow> tags el = Some t \<Longrightarrow>
   t ''admin_level'' = None \<or> (\<exists>s. t ''admin_level'' = Some s \<and> int_parse e s = None) \<Longrightarrow>
   admin_level a = 99"
  by (auto simp: element_area_def parse_admin_level_def split: option.splits)

lemma element_area_retained: "(element_area e el \<noteq> None) = retained el"
  by (auto simp: element_area_def retained_def split: option.splits)

lemma length_map_filter: "length (List.map_filter f xs) = length (filter (\<lambda>x. f x \<noteq> None) xs)"
  by (induction xs) (auto simp: List.map_filter_simps split: option.splits)

section \<open>Resolution\<close>

lemma sample_areas: "get_osm_administrative_areas (sample_env alts) lat lon = [area_A, area_B]"
  by (simp add: get_osm_administrative_areas_def sample_env_def sample_elements_def
      sorted_reverse_def element_area_def parse_admin_level_def sample_int_def area_A_def area_B_def)

lemma sample_fetch_Q1:
  "get_population_and_area_wikidata (sample_env alts) ''Q1'' =
     Returned (Inl ''No population or area data found for this Wikidata ID.'')"
  by (simp add: get_population_and_area_wikidata_def sample_env_def)


lemma sample_fetch_Q9:
  "get_population_and_area_wikidata (sample_env alts) ''Q9'' =
     Returned (Inr \<lparr>population = 500000, area_km2 = PyFloat (Fin 1000),
       population_density = PyFloat (Fin 500)\<rparr>)"
  by (simp add: get_population_and_area_wikidata_def sample_env_def sample_int_def
      sample_float_def density_of_def parse_area_def truthy_def py_truediv_def
      int_to_float_def overflows_def)


lemma sample_search:
  "search_alternative_wikidata_ids (sample_env alts) (Some ''Alpha'') = alts"
  by (simp add: search_alternative_wikidata_ids_def sample_env_def)

lemma app_get_population_density_eq:
  "app_get_population_density e lat lon = get_population_density e lat lon"
  by (simp add: app_get_population_density_def get_population_density_def app_osm_eq
      app_try_areas_eq Let_def)

text \<open>
  Claim C1. When the boundary list begins with an area \<open>A\<close>, the fetch on \<open>A\<close>'s
  identifier returns an error, the search for \<open>A\<close>'s name returns that identifier followed
  by \<open>q9\<close>, and the fetch on \<open>q9\<close> returns data, then the result carries that data with
  \<open>A\<close>'s name as location, \<open>A\<close>'s admin level, and \<open>q9\<close> as \<^verbatim>\<open>wikidata_id\<close>. The calls made
  are: the boundary lookup, one fetch on \<open>A\<close>'s identifier, the search, one fetch on \<open>q9\<close>;
  so the original identifier is not fetched again and no later area is consulted. The copy
  in \<^verbatim>\<open>src/app.py\<close> returns the same.
\<close>

theorem alternative_short_circuits:
  assumes "get_osm_administrative_areas e lat lon = A # rest"
    and "get_population_and_area_wikidata e (wikidata_id A) = Returned (Inl err)"
    and "search_alternative_wikidata_ids e (name A) = [wikidata_id A, q9]"
    and "get_population_and_area_wikidata e q9 = Returned (Inr d)"
  shows "get_population_density e lat lon =
           (Returned (Inr \<lparr>population = population d, area_km2 = area_km2 d,
              population_density = population_density d, location = name A,
              res_admin_level = admin_level A, res_wikidata_id = Some q9\<rparr>),
            [Locate lat lon, Fetch (wikidata_id A), Search (name A), Fetch q9])
         \<and> app_get_population_density e lat lon = get_population_density e lat lon"
proof -
  from assms(2,4) have ne: "q9 \<noteq> wikidata_id A" by auto
  with assms(4) have "try_alternatives e A [wikidata_id A, q9] =
      (Some (Returned (Inr (found A d (Some q9)))), [Fetch q9])"
    by simp
  with assms(1,2,3) have "get_population_density e lat lon =
      (Returned (Inr (found A d (Some q9))),
       [Locate lat lon, Fetch (wikidata_id A), Search (name A), Fetch q9])"
    by (simp add: get_population_density_def)
  then show ?thesis
    by (simp add: found_def app_get_population_density_eq)
qed

theorem alternative_short_circuits_witness:
  "get_population_density (sample_env [''Q1'', ''Q9'']) 27 87 =
     (Returned (Inr \<lparr>population = 500000, area_km2 = PyFloat (Fin 1000),
        population_density = PyFloat (Fin 500), location = Some ''Alpha'',
        res_admin_level = 8, res_wikidata_id = Some ''Q9''\<rparr>),
      [Locate 27 87, Fetch ''Q1'', Search (Some ''Alpha''), Fetch ''Q9''])"
proof -
  have h1: "get_osm_administrative_areas (sample_env [''Q1'', ''Q9'']) 27 87 = area_A # [area_B]"
    by (simp add: sample_areas)
  have h2: "get_population_and_area_wikidata (sample_env [''Q1'', ''Q9'']) (wikidata_id area_A) =
      Returned (Inl ''No population or area data found for this Wikidata ID.'')"
    by (simp add: area_A_def sample_fetch_Q1)
  have h3: "search_alternative_wikidata_ids (sample_env [''Q1'', ''Q9'']) (name area_A) =
      [wikidata_id area_A, ''Q9'']"
    by (simp add: area_A_def sample_search)
  note h4 = sample_fetch_Q9 [of "[''Q1'', ''Q9'']"]
  from alternative_short_circuits [OF h1 h2 h3 h4] show ?thesis
    by (simp add: area_A_def)
qed



section \<open>The duplicated logic\<close>


section \<open>Classification\<close>

text \<open>On finite floats, on ints and on values that are not numbers.\<close>

lemma determine_rarity_finite:
  "(determine_rarity (PyFloat (Fin d)) = Some 1 \<longleftrightarrow> d < 25) \<and>
   (determine_rarity (PyFloat (Fin d)) = Some 2 \<longleftrightarrow> 25 \<le> d \<and> d < 100) \<and>
   (determine_rarity (PyFloat (Fin d)) = Some 3 \<longleftrightarrow> 100 \<le> d \<and> d < 500) \<and>
   (determine_rarity (PyFloat (Fin d)) = Some 4 \<longleftrightarrow> 500 \<le> d) \<and>
   (determine_rarity (PyInt i) = Some 1 \<longleftrightarrow> i < 25) \<and>
   (determine_rarity (PyInt i) = Some 2 \<longleftrightarrow> 25 \<le> i \<and> i < 100) \<and>
   (determine_rarity (PyInt i) = Some 3 \<longleftrightarrow> 100 \<le> i \<and> i < 500) \<and>
   (determine_rarity (PyInt i) = Some 4 \<longleftrightarrow> 500 \<le> i) \<and>
   determine_rarity (PyStr s) = None \<and>
   determine_rarity PyNone = None"
  by (simp add: determine_rarity_def)

lemma determine_rarity_boundaries:
  "determine_rarity (PyFloat (Fin 25)) = Some 2 \<and>
   determine_rarity (PyFloat (Fin 100)) = Some 3 \<and>
   determine_rarity (PyFloat (Fin 500)) = Some 4 \<and>
   determine_rarity (PyFloat PosInf) = Some 4 \<and>
   determine_rarity (PyFloat NegInf) = Some 1"
  by (simp add: determine_rarity_def)

text \<open>
  Claim C3. The claim, like the docstring of \<^verbatim>\<open>determine_rarity\<close>, gives tier 1 to
  \<open>0 \<le> d < 25\<close> and tier 4 to \<open>d \<ge> 500\<close>. The function tests no lower bound, and its last
  branch takes every number that is not below 500: at the densities \<open>-25\<close> and \<open>-1\<close> it
  returns 1, and at NaN, which is not at least 500, it returns 4.
\<close>

theorem determine_rarity_negative:
  "determine_rarity (PyFloat (Fin (- 25))) = Some 1 \<and>
   determine_rarity (PyInt (- 1)) = Some 1 \<and>
   determine_rarity (PyFloat NaN) = Some 4"
  by (simp add: determine_rarity_def)

section \<open>Fetching population and area\<close>

lemmas sample_defs =
  sample_env_def sample_int_def sample_float_def get_population_and_area_wikidata_def
  app_get_population_and_area_wikidata_def density_of_eq parse_area_def unknown_area_def
  py_truediv_def int_to_float_def overflows_def

text \<open>
  Claim C5, as stated, at a record with population 100 and area \<open>-4\<close>: the area parses as
  a float that is not positive, and the record returned has the density \<open>-25\<close>, not the
  sentinel.
\<close>

theorem fetch_negative_area:
  "float_parse (sample_env []) ''-4'' = Some (Fin (- 4)) \<and> \<not> 0 < (- 4 :: real) \<and>
   get_population_and_area_wikidata (sample_env []) ''Q5'' =
     Returned (Inr \<lparr>population = 100, area_km2 = PyFloat (Fin (- 4)),
       population_density = PyFloat (Fin (- 25))\<rparr>) \<and>
   app_get_population_and_area_wikidata (sample_env []) ''Q5'' =
     Returned (Inr \<lparr>population = 100, area_km2 = PyFloat (Fin (- 4)),
       population_density = PyFloat (Fin (- 25))\<rparr>)"
  by (simp add: sample_defs)

text \<open>
  Claim C5, amended. When the first binding's population parses as the integer \<open>p\<close>: if the
  area value parses as a float \<open>a\<close> other than zero (positive, negative, infinite or NaN)
  and \<open>p\<close> converts to the float \<open>x\<close>, the record has \<^verbatim>\<open>area_km2\<close> \<open>a\<close> and
  \<^verbatim>\<open>population_density\<close> the float quotient of \<open>x\<close> by \<open>a\<close>; if the area is absent, does not
  parse, or parses as zero, the record has \<^verbatim>\<open>area_km2\<close> \<^verbatim>\<open>"Unknown"\<close> and the density
  \<^verbatim>\<open>"Cannot calculate (no area data)"\<close>, and is a data record, not an error. Both copies.
  A population that does not convert to a float is left out of the statement.
\<close>

theorem fetch_density:
  assumes "sparql_get e wid = Response (Bindings (r # rest))"
    and "r ''population'' = Some s"
    and "int_parse e s = Some p"
  shows "(\<forall>v a x. r ''area'' = Some v \<and> float_parse e v = Some a \<and> a \<noteq> Fin 0 \<and>
            int_to_float e p = Returned x \<longrightarrow>
            get_population_and_area_wikidata e wid =
              Returned (Inr \<lparr>population = p, area_km2 = PyFloat a,
                population_density = PyFloat (float_div e x a)\<rparr>) \<and>
            app_get_population_and_area_wikidata e wid =
              Returned (Inr \<lparr>population = p, area_km2 = PyFloat a,
                population_density = PyFloat (float_div e x a)\<rparr>)) \<and>
         (r ''area'' = None \<or>
          (\<exists>v. r ''area'' = Some v \<and>
             (float_parse e v = None \<or> float_parse e v = Some (Fin 0))) \<longrightarrow>
            get_population_and_area_wikidata e wid =
              Returned (Inr \<lparr>population = p, area_km2 = PyStr ''Unknown'',
                population_density = PyStr ''Cannot calculate (no area data)''\<rparr>) \<and>
            app_get_population_and_area_wikidata e wid =
              Returned (Inr \<lparr>population = p, area_km2 = PyStr ''Unknown'',
                population_density = PyStr ''Cannot calculate (no area data)''\<rparr>))"
  using fetch_parsed [OF assms] app_fetch_parsed [OF assms]
  by (auto simp: density_of_eq parse_area_def unknown_area_def)

theorem fetch_density_witness:
  "get_population_and_area_wikidata (sample_env []) ''Q9'' =
     Returned (Inr \<lparr>population = 500000, area_km2 = PyFloat (Fin 1000),
       population_density = PyFloat (Fin 500)\<rparr>) \<and>
   get_population_and_area_wikidata (sample_env []) ''Q2'' =
     Returned (Inr \<lparr>population = 100, area_km2 = PyStr ''Unknown'',
       population_density = PyStr ''Cannot calculate (no area data)''\<rparr>) \<and>
   determine_rarity (PyFloat (Fin 500)) = Some 4 \<and>
   determine_rarity (PyStr ''Cannot calculate (no area data)'') = None"
proof -
  have a1: "sparql_get (sample_env []) ''Q9'' =
      Response (Bindings ([''population'' \<mapsto> ''500000'', ''area'' \<mapsto> ''1000.0''] # []))"
    by (simp add: sample_env_def)
  have a2: "[''population'' \<mapsto> ''500000'', ''area'' \<mapsto> ''1000.0''] ''population'' = Some ''500000''"
    by simp
  have a3: "int_parse (sample_env []) ''500000'' = Some 500000"
    by (simp add: sample_env_def sample_int_def huge_population_def)
  have b1: "sparql_get (sample_env []) ''Q2'' =
      Response (Bindings ([''population'' \<mapsto> ''100''] # []))"
    by (simp add: sample_env_def)
  have b2: "[''population'' \<mapsto> ''100''] ''population'' = Some ''100''"
    by simp
  have b3: "int_parse (sample_env []) ''100'' = Some 100"
    by (simp add: sample_env_def sample_int_def huge_population_def)
  have c: "[''population'' \<mapsto> ''500000'', ''area'' \<mapsto> ''1000.0''] ''area'' = Some ''1000.0'' \<and>
      float_parse (sample_env []) ''1000.0'' = Some (Fin 1000) \<and> Fin 1000 \<noteq> Fin 0 \<and>
      int_to_float (sample_env []) 500000 = Returned (Fin 500000)"
    by (simp add: sample_env_def sample_float_def int_to_float_def overflows_def)
  note w1 = fetch_density [OF a1 a2 a3, THEN conjunct1, rule_format, OF c, THEN conjunct1]
  have "float_div (sample_env []) (Fin 500000) (Fin 1000) = Fin 500"
    by (simp add: overflows_def sample_env_def)
  with w1 have "get_population_and_area_wikidata (sample_env []) ''Q9'' =
     Returned (Inr \<lparr>population = 500000, area_km2 = PyFloat (Fin 1000),
       population_density = PyFloat (Fin 500)\<rparr>)"
    by simp
  moreover from fetch_density [OF b1 b2 b3]
  have "get_population_and_area_wikidata (sample_env []) ''Q2'' =
     Returned (Inr \<lparr>population = 100, area_km2 = PyStr ''Unknown'',
       population_density = PyStr ''Cannot calculate (no area data)''\<rparr>)"
    by simp
  ultimately show ?thesis by (simp add: determine_rarity_def)
qed

lemma fetch_request_failed:
  "sparql_get e wid = RequestException m \<Longrightarrow>
   get_population_and_area_wikidata e wid = Returned (Inl (''Request failed: '' @ m)) \<and>
   app_get_population_and_area_wikidata e wid = Returned (Inl (''Request failed: '' @ m))"
  by (simp add: get_population_and_area_wikidata_def app_get_population_and_area_wikidata_def)

lemma fetch_no_data:
  "sparql_get e wid = Response NoResults \<or> sparql_get e wid = Response NoBindings \<or>
   sparql_get e wid = Response (Bindings []) \<Longrightarrow>
   get_population_and_area_wikidata e wid =
     Returned (Inl ''No population or area data found for this Wikidata ID.'') \<and>
   app_get_population_and_area_wikidata e wid =
     Returned (Inl ''No population or area data found for this Wikidata ID.'')"
  by (elim disjE)
     (simp_all add: get_population_and_area_wikidata_def app_get_population_and_area_wikidata_def)

lemma fetch_invalid_population:
  "sparql_get e wid = Response (Bindings (r # rest)) \<and>
   (r ''population'' = None \<or> (\<exists>s. r ''population'' = Some s \<and> int_parse e s = None)) \<Longrightarrow>
   get_population_and_area_wikidata e wid =
     Returned (Inl ''Population data is not in a valid format.'') \<and>
   app_get_population_and_area_wikidata e wid = Returned (Inl ''Population data is not valid.'')"
  by (elim conjE disjE exE)
     (simp_all add: get_population_and_area_wikidata_def app_get_population_and_area_wikidata_def)


lemma fetch_data:
  assumes "sparql_get e wid = Response (Bindings (r # rest)) \<and>
   r ''population'' = Some s \<and> int_parse e s = Some p"
  shows "get_population_and_area_wikidata e wid = Raised OverflowError \<or>
     (\<exists>d. get_population_and_area_wikidata e wid = Returned (Inr d) \<and> population d = p)"
proof -
  from assms have a: "sparql_get e wid = Response (Bindings (r # rest))"
    and b: "r ''population'' = Some s" and c: "int_parse e s = Some p"
    by simp_all
  from int_to_float_cases [of e p] show ?thesis
    unfolding fetch_parsed [OF a b c]
    by (cases "parse_area e r") (auto simp: density_of_eq unknown_area_def)
qed

lemma fetch_not_zero_division:
  "get_population_and_area_wikidata e wid \<noteq> Raised ZeroDivisionError"
proof
  assume z: "get_population_and_area_wikidata e wid = Raised ZeroDivisionError"
  then obtain r rest s p where "sparql_get e wid = Response (Bindings (r # rest))"
      "r ''population'' = Some s" "int_parse e s = Some p"
    by (auto simp: get_population_and_area_wikidata_def
        split: response.splits sparql_json.splits list.splits option.splits)
  from fetch_parsed [OF this] z density_of_cases [of e p "parse_area e r"]
  show False by auto
qed

lemma app_fetch_not_zero_division:
  "app_get_population_and_area_wikidata e wid \<noteq> Raised ZeroDivisionError"
  by (simp add: app_fetch_raised fetch_not_zero_division)

lemma float_density_origin:
  assumes "get_population_and_area_wikidata e wid = Returned (Inr d) \<and>
    population_density d = PyFloat x"
  shows "\<exists>r rest v a. sparql_get e wid = Response (Bindings (r # rest)) \<and>
         r ''area'' = Some v \<and> float_parse e v = Some a \<and> a \<noteq> Fin 0 \<and>
         py_truediv e (population d) a = Returned x"
  using assms
  by (auto simp: get_population_and_area_wikidata_def density_of_eq parse_area_def
      unknown_area_def py_truediv_def
      split: response.splits sparql_json.splits list.splits option.splits if_splits
        outcome.splits)

lemma zero_area_as_missing:
  assumes "sparql_get e wid = Response (Bindings (r # rest)) \<and>
      r ''area'' = Some v \<and> float_parse e v = Some (Fin 0)"
  shows "get_population_and_area_wikidata e wid =
        get_population_and_area_wikidata
          (e\<lparr>sparql_get := (sparql_get e)(wid := Response (Bindings (r(''area'' := None) # rest)))\<rparr>)
          wid \<and>
      app_get_population_and_area_wikidata e wid =
        app_get_population_and_area_wikidata
          (e\<lparr>sparql_get := (sparql_get e)(wid := Response (Bindings (r(''area'' := None) # rest)))\<rparr>)
          wid"
  using assms
  by (simp add: get_population_and_area_wikidata_def
      app_get_population_and_area_wikidata_def density_of_eq parse_area_def
      split: option.splits)


lemma zero_area_unknown:
  assumes "sparql_get e wid = Response (Bindings (r # rest)) \<and>
      r ''area'' = Some v \<and> float_parse e v = Some (Fin 0) \<and>
      r ''population'' = Some s \<and> int_parse e s = Some p"
  shows "get_population_and_area_wikidata e wid =
        Returned (Inr \<lparr>population = p, area_km2 = PyStr ''Unknown'',
          population_density = PyStr ''Cannot calculate (no area data)''\<rparr>) \<and>
      app_get_population_and_area_wikidata e wid =
        Returned (Inr \<lparr>population = p, area_km2 = PyStr ''Unknown'',
          population_density = PyStr ''Cannot calculate (no area data)''\<rparr>)"
proof -
  from assms have a: "sparql_get e wid = Response (Bindings (r # rest))"
    and b: "r ''population'' = Some s" and c: "int_parse e s = Some p"
    and z: "r ''area'' = Some v" "float_parse e v = Some (Fin 0)"
    by simp_all
  show ?thesis
    unfolding fetch_parsed [OF a b c] app_fetch_parsed [OF a b c]
    using z by (simp add: density_of_eq parse_area_def unknown_area_def)
qed

text \<open>
  Claim C6. The claim, like the docstring of \<^verbatim>\<open>get_population_and_area_wikidata\<close>
  ("otherwise an error message"), has every failure returned as a value. The three
  returned failures are as the claim says (the lemmas above). A fourth failure is
  raised: \<^verbatim>\<open>population / area\<close> converts the population to a float, and an int beyond
  the float range raises \<^verbatim>\<open>OverflowError\<close>, which no handler of the function catches
  (they catch \<^verbatim>\<open>KeyError\<close>, \<^verbatim>\<open>ValueError\<close> and \<^verbatim>\<open>RequestException\<close>). At the record with
  population \<open>huge_population\<close> and area 2, both copies raise.
\<close>

theorem fetch_raises_overflow:
  "int_parse (sample_env []) huge_population = Some (2 * 10 ^ 308) \<and>
   float_parse (sample_env []) ''2'' = Some (Fin 2) \<and>
   get_population_and_area_wikidata (sample_env []) ''Q8'' = Raised OverflowError \<and>
   app_get_population_and_area_wikidata (sample_env []) ''Q8'' = Raised OverflowError"
  by (simp add: sample_defs huge_population_def)

text \<open>
  Claim C10. \<^verbatim>\<open>population / area\<close> is evaluated only under \<^verbatim>\<open>if area:\<close>, that is when
  the area has parsed as a float other than zero. So no response makes
  \<^verbatim>\<open>get_population_and_area_wikidata\<close> raise \<^verbatim>\<open>ZeroDivisionError\<close>; a float density in the
  result always comes from a parsed non-zero area; and a binding whose area parses as
  zero gives what the same binding without area gives: with a parsed population, the
  record with \<^verbatim>\<open>"Unknown"\<close> and \<^verbatim>\<open>"Cannot calculate (no area data)"\<close>. Both copies.
\<close>

theorem no_division_by_zero:
  "get_population_and_area_wikidata e wid \<noteq> Raised ZeroDivisionError \<and>
   app_get_population_and_area_wikidata e wid \<noteq> Raised ZeroDivisionError \<and>
   (\<forall>d x. get_population_and_area_wikidata e wid = Returned (Inr d) \<and>
      population_density d = PyFloat x \<longrightarrow>
      (\<exists>r rest v a. sparql_get e wid = Response (Bindings (r # rest)) \<and>
         r ''area'' = Some v \<and> float_parse e v = Some a \<and> a \<noteq> Fin 0 \<and>
         py_truediv e (population d) a = Returned x)) \<and>
   (\<forall>r rest v. sparql_get e wid = Response (Bindings (r # rest)) \<and>
      r ''area'' = Some v \<and> float_parse e v = Some (Fin 0) \<longrightarrow>
      get_population_and_area_wikidata e wid =
        get_population_and_area_wikidata
          (e\<lparr>sparql_get := (sparql_get e)(wid := Response (Bindings (r(''area'' := None) # rest)))\<rparr>)
          wid \<and>
      app_get_population_and_area_wikidata e wid =
        app_get_population_and_area_wikidata
          (e\<lparr>sparql_get := (sparql_get e)(wid := Response (Bindings (r(''area'' := None) # rest)))\<rparr>)
          wid) \<and>
   (\<forall>r rest v s p. sparql_get e wid = Response (Bindings (r # rest)) \<and>
      r ''area'' = Some v \<and> float_parse e v = Some (Fin 0) \<and>
      r ''population'' = Some s \<and> int_parse e s = Some p \<longrightarrow>
      get_population_and_area_wikidata e wid =
        Returned (Inr \<lparr>population = p, area_km2 = PyStr ''Unknown'',
          population_density = PyStr ''Cannot calculate (no area data)''\<rparr>) \<and>
      app_get_population_and_area_wikidata e wid =
        Returned (Inr \<lparr>population = p, area_km2 = PyStr ''Unknown'',
          population_density = PyStr ''Cannot calculate (no area data)''\<rparr>))"
proof -
  have p1: "get_population_and_area_wikidata e wid \<noteq> Raised ZeroDivisionError"
    by (rule fetch_not_zero_division)
  have p2: "app_get_population_and_area_wikidata e wid \<noteq> Raised ZeroDivisionError"
    by (rule app_fetch_not_zero_division)
  have p3: "\<forall>d x. get_population_and_area_wikidata e wid = Returned (Inr d) \<and>
      population_density d = PyFloat x \<longrightarrow>
      (\<exists>r rest v a. sparql_get e wid = Response (Bindings (r # rest)) \<and>
         r ''area'' = Some v \<and> float_parse e v = Some a \<and> a \<noteq> Fin 0 \<and>
         py_truediv e (population d) a = Returned x)"
    by (intro allI impI) (rule float_density_origin)
  have p4: "\<forall>r rest v. sparql_get e wid = Response (Bindings (r # rest)) \<and>
      r ''area'' = Some v \<and> float_parse e v = Some (Fin 0) \<longrightarrow>
      get_population_and_area_wikidata e wid =
        get_population_and_area_wikidata
          (e\<lparr>sparql_get := (sparql_get e)(wid := Response (Bindings (r(''area'' := None) # rest)))\<rparr>)
          wid \<and>
      app_get_population_and_area_wikidata e wid =
        app_get_population_and_area_wikidata
          (e\<lparr>sparql_get := (sparql_get e)(wid := Response (Bindings (r(''area'' := None) # rest)))\<rparr>)
          wid"
    by (intro allI impI) (rule zero_area_as_missing)
  have p5: "\<forall>r rest v s p. sparql_get e wid = Response (Bindings (r # rest)) \<and>
      r ''area'' = Some v \<and> float_parse e v = Some (Fin 0) \<and>
      r ''population'' = Some s \<and> int_parse e s = Some p \<longrightarrow>
      get_population_and_area_wikidata e wid =
        Returned (Inr \<lparr>population = p, area_km2 = PyStr ''Unknown'',
          population_density = PyStr ''Cannot calculate (no area data)''\<rparr>) \<and>
      app_get_population_and_area_wikidata e wid =
        Returned (Inr \<lparr>population = p, area_km2 = PyStr ''Unknown'',
          population_density = PyStr ''Cannot calculate (no area data)''\<rparr>)"
    by (intro allI impI) (rule zero_area_unknown)
  show ?thesis
    by (rule conjI [OF p1 conjI [OF p2 conjI [OF p3 conjI [OF p4 p5]]]])
qed

theorem no_division_by_zero_witness:
  "get_population_and_area_wikidata (sample_env []) ''Q0'' =
     Returned (Inr \<lparr>population = 100, area_km2 = PyStr ''Unknown'',
       population_density = PyStr ''Cannot calculate (no area data)''\<rparr>) \<and>
   float_parse (sample_env []) ''0'' = Some (Fin 0)"
proof -
  have q0: "sparql_get (sample_env []) ''Q0'' =
      Response (Bindings ([''population'' \<mapsto> ''100'', ''area'' \<mapsto> ''0''] # [])) \<and>
      [''population'' \<mapsto> ''100'', ''area'' \<mapsto> ''0''] ''area'' = Some ''0'' \<and>
      float_parse (sample_env []) ''0'' = Some (Fin 0) \<and>
      [''population'' \<mapsto> ''100'', ''area'' \<mapsto> ''0''] ''population'' = Some ''100'' \<and>
      int_parse (sample_env []) ''100'' = Some 100"
    by (simp add: sample_env_def sample_int_def sample_float_def huge_population_def)
  note w = no_division_by_zero [of "sample_env []" "''Q0''", THEN conjunct2, THEN conjunct2,
      THEN conjunct2, THEN conjunct2, rule_format, OF q0]
  from w q0 show ?thesis by simp
qed

section \<open>Ordering and retention of the boundary list\<close>

lemma mset_sorted_reverse: "mset (sorted_reverse as) = mset as"
  by (simp add: sorted_reverse_def)

lemma osm_sorted:
  "sorted_wrt (\<lambda>a b. admin_level b \<le> admin_level a) (get_osm_administrative_areas e lat lon)"
proof -
  obtain as where "get_osm_administrative_areas e lat lon = sorted_reverse as"
    using osm_shape by blast
  then show ?thesis by (simp add: sorted_reverse_desc)
qed

lemma osm_stable:
  assumes "overpass_get e lat lon = Response (Some els)"
  shows "mset (get_osm_administrative_areas e lat lon) =
           mset (List.map_filter (element_area e) els) \<and>
         (\<forall>k. filter (\<lambda>a. admin_level a = k) (get_osm_administrative_areas e lat lon) =
              filter (\<lambda>a. admin_level a = k) (List.map_filter (element_area e) els))"
  unfolding osm_response [OF assms]
  by (simp add: mset_sorted_reverse sorted_reverse_stable)

lemma osm_sentinel_first:
  assumes "i < length (get_osm_administrative_areas e lat lon) \<and>
     j < length (get_osm_administrative_areas e lat lon) \<and>
     admin_level (get_osm_administrative_areas e lat lon ! i) = 99 \<and>
     admin_level (get_osm_administrative_areas e lat lon ! j) < 99"
  shows "i < j"
  using sentinel_first [OF osm_sorted, of i e lat lon j] assms by simp

lemma element_area_sentinel:
  assumes "element_area e el = Some a \<and> tags el = Some t \<and>
     (t ''admin_level'' = None \<or> (\<exists>s. t ''admin_level'' = Some s \<and> int_parse e s = None))"
  shows "admin_level a = 99"
  using assms element_area_level [of e el a t] by blast

text \<open>
  Claim C7. The list returned by \<^verbatim>\<open>get_osm_administrative_areas\<close> is sorted descending by
  \<^verbatim>\<open>admin_level\<close>; it is a permutation of the areas of the retained elements; for every
  level the areas of that level come in the upstream order (the sort is stable); an
  element whose \<^verbatim>\<open>admin_level\<close> tag is missing or does not parse gets level 99; and so an
  area of level 99 comes before every area of a smaller level. Both copies.
\<close>

theorem areas_sorted_descending:
  "sorted_wrt (\<lambda>a b. admin_level b \<le> admin_level a) (get_osm_administrative_areas e lat lon) \<and>
   (\<forall>els. overpass_get e lat lon = Response (Some els) \<longrightarrow>
      mset (get_osm_administrative_areas e lat lon) =
        mset (List.map_filter (element_area e) els) \<and>
      (\<forall>k. filter (\<lambda>a. admin_level a = k) (get_osm_administrative_areas e lat lon) =
           filter (\<lambda>a. admin_level a = k) (List.map_filter (element_area e) els))) \<and>
   (\<forall>el a t. element_area e el = Some a \<and> tags el = Some t \<and>
      (t ''admin_level'' = None \<or> (\<exists>s. t ''admin_level'' = Some s \<and> int_parse e s = None)) \<longrightarrow>
      admin_level a = 99) \<and>
   (\<forall>i j. i < length (get_osm_administrative_areas e lat lon) \<and>
      j < length (get_osm_administrative_areas e lat lon) \<and>
      admin_level (get_osm_administrative_areas e lat lon ! i) = 99 \<and>
      admin_level (get_osm_administrative_areas e lat lon ! j) < 99 \<longrightarrow> i < j) \<and>
   app_get_osm_administrative_areas e lat lon = get_osm_administrative_areas e lat lon"
proof -
  have p2: "\<forall>els. overpass_get e lat lon = Response (Some els) \<longrightarrow>
      mset (get_osm_administrative_areas e lat lon) =
        mset (List.map_filter (element_area e) els) \<and>
      (\<forall>k. filter (\<lambda>a. admin_level a = k) (get_osm_administrative_areas e lat lon) =
           filter (\<lambda>a. admin_level a = k) (List.map_filter (element_area e) els))"
    by (intro allI impI) (rule osm_stable)
  have p3: "\<forall>el a t. element_area e el = Some a \<and> tags el = Some t \<and>
      (t ''admin_level'' = None \<or> (\<exists>s. t ''admin_level'' = Some s \<and> int_parse e s = None)) \<longrightarrow>
      admin_level a = 99"
    by (intro allI impI) (rule element_area_sentinel)
  have p4: "\<forall>i j. i < length (get_osm_administrative_areas e lat lon) \<and>
      j < length (get_osm_administrative_areas e lat lon) \<and>
      admin_level (get_osm_administrative_areas e lat lon ! i) = 99 \<and>
      admin_level (get_osm_administrative_areas e lat lon ! j) < 99 \<longrightarrow> i < j"
    by (intro allI impI) (rule osm_sentinel_first)
  show ?thesis
    by (rule conjI [OF osm_sorted conjI [OF p2 conjI [OF p3 conjI [OF p4 app_osm_eq]]]])
qed

theorem areas_sorted_descending_witness:
  "get_osm_administrative_areas
     ((sample_env [])\<lparr>overpass_get := \<lambda>lat lon. Response (Some unlevelled_elements)\<rparr>) 27 87 =
     [\<lparr>name = Some ''Gamma'', wikidata_id = ''Q3'', admin_level = 99\<rparr>,
      \<lparr>name = Some ''Delta'', wikidata_id = ''Q4'', admin_level = 99\<rparr>,
      \<lparr>name = Some ''Alpha'', wikidata_id = ''Q1'', admin_level = 8\<rparr>,
      \<lparr>name = Some ''Beta'', wikidata_id = ''Q2'', admin_level = 4\<rparr>] \<and>
   filter (\<lambda>a. admin_level a = 99)
     (get_osm_administrative_areas
       ((sample_env [])\<lparr>overpass_get := \<lambda>lat lon. Response (Some unlevelled_elements)\<rparr>) 27 87) =
     [\<lparr>name = Some ''Gamma'', wikidata_id = ''Q3'', admin_level = 99\<rparr>,
      \<lparr>name = Some ''Delta'', wikidata_id = ''Q4'', admin_level = 99\<rparr>]"
proof -
  let ?e = "(sample_env [])\<lparr>overpass_get := \<lambda>lat lon. Response (Some unlevelled_elements)\<rparr>"
  have h: "overpass_get ?e 27 87 = Response (Some unlevelled_elements)"
    by simp
  have m: "List.map_filter (element_area ?e) unlevelled_elements =
     [\<lparr>name = Some ''Beta'', wikidata_id = ''Q2'', admin_level = 4\<rparr>,
      \<lparr>name = Some ''Gamma'', wikidata_id = ''Q3'', admin_level = 99\<rparr>,
      \<lparr>name = Some ''Alpha'', wikidata_id = ''Q1'', admin_level = 8\<rparr>,
      \<lparr>name = Some ''Delta'', wikidata_id = ''Q4'', admin_level = 99\<rparr>]"
    by (simp add: unlevelled_elements_def List.map_filter_simps element_area_def
        parse_admin_level_def sample_env_def sample_int_def huge_population_def)
  note w = areas_sorted_descending [of ?e 27 87, THEN conjunct2, THEN conjunct1, rule_format,
      OF h, THEN conjunct2, rule_format, of 99]
  have v: "get_osm_administrative_areas ?e 27 87 =
     [\<lparr>name = Some ''Gamma'', wikidata_id = ''Q3'', admin_level = 99\<rparr>,
      \<lparr>name = Some ''Delta'', wikidata_id = ''Q4'', admin_level = 99\<rparr>,
      \<lparr>name = Some ''Alpha'', wikidata_id = ''Q1'', admin_level = 8\<rparr>,
      \<lparr>name = Some ''Beta'', wikidata_id = ''Q2'', admin_level = 4\<rparr>]"
    unfolding osm_response [OF h] m by (simp add: sorted_reverse_def)
  from w have "filter (\<lambda>a. admin_level a = 99) (get_osm_administrative_areas ?e 27 87) =
     [\<lparr>name = Some ''Gamma'', wikidata_id = ''Q3'', admin_level = 99\<rparr>,
      \<lparr>name = Some ''Delta'', wikidata_id = ''Q4'', admin_level = 99\<rparr>]"
    unfolding m by simp
  with v show ?thesis by (rule conjI)
qed

text \<open>
  Claim C8, as stated, at an element list whose first element has a \<^verbatim>\<open>wikidata\<close> tag and no
  \<^verbatim>\<open>name\<close> tag: the claim drops it, the function returns it with the name \<^verbatim>\<open>None\<close>.
\<close>

theorem nameless_element_retained:
  "get_osm_administrative_areas
     ((sample_env [])\<lparr>overpass_get := \<lambda>lat lon. Response (Some nameless_elements)\<rparr>) 27 87 =
     [\<lparr>name = None, wikidata_id = ''Q1'', admin_level = 99\<rparr>] \<and>
   app_get_osm_administrative_areas
     ((sample_env [])\<lparr>overpass_get := \<lambda>lat lon. Response (Some nameless_elements)\<rparr>) 27 87 =
     [\<lparr>name = None, wikidata_id = ''Q1'', admin_level = 99\<rparr>]"
  by (simp add: app_osm_eq get_osm_administrative_areas_def nameless_elements_def
      sorted_reverse_def element_area_def parse_admin_level_def)

lemma osm_retained:
  assumes "overpass_get e lat lon = Response (Some els)"
  shows "mset (get_osm_administrative_areas e lat lon) =
           mset (List.map_filter (element_area e) els) \<and>
         length (get_osm_administrative_areas e lat lon) = length (filter retained els)"
proof -
  have "length (List.map_filter (element_area e) els) = length (filter retained els)"
    unfolding length_map_filter element_area_retained by (rule refl)
  then show ?thesis
    unfolding osm_response [OF assms] by (simp add: mset_sorted_reverse sorted_reverse_def)
qed

lemma element_area_fields:
  assumes "element_area e el = Some a"
  shows "\<exists>t. tags el = Some t \<and> t ''wikidata'' = Some (wikidata_id a) \<and> name a = t ''name''"
  using assms by (auto simp: element_area_def split: option.splits)

lemma osm_nothing:
  assumes "(\<exists>m. overpass_get e lat lon = RequestException m) \<or>
     overpass_get e lat lon = Response None \<or> overpass_get e lat lon = Response (Some [])"
  shows "get_osm_administrative_areas e lat lon = []"
  using assms by (auto simp: get_osm_administrative_areas_def)

text \<open>
  Claim C8, amended. \<^verbatim>\<open>get_osm_administrative_areas\<close> retains exactly the elements that
  have a \<^verbatim>\<open>tags\<close> object with a \<^verbatim>\<open>wikidata\<close> key: the result is a permutation of their areas
  and has as many entries as there are such elements. The \<^verbatim>\<open>name\<close> tag is not tested: the
  area's name is the tag's value, or \<^verbatim>\<open>None\<close> when the tag is absent. Every other element is
  dropped, and a failed request, a document without \<^verbatim>\<open>elements\<close> and an empty element list
  give the empty list; none of these is an error. Both copies.
\<close>

theorem areas_retained:
  "(\<forall>els. overpass_get e lat lon = Response (Some els) \<longrightarrow>
      mset (get_osm_administrative_areas e lat lon) =
        mset (List.map_filter (element_area e) els) \<and>
      length (get_osm_administrative_areas e lat lon) = length (filter retained els)) \<and>
   (\<forall>el. (element_area e el \<noteq> None) = retained el) \<and>
   (\<forall>el a. element_area e el = Some a \<longrightarrow>
      (\<exists>t. tags el = Some t \<and> t ''wikidata'' = Some (wikidata_id a) \<and> name a = t ''name'')) \<and>
   ((\<exists>m. overpass_get e lat lon = RequestException m) \<or>
    overpass_get e lat lon = Response None \<or> overpass_get e lat lon = Response (Some []) \<longrightarrow>
      get_osm_administrative_areas e lat lon = []) \<and>
   app_get_osm_administrative_areas e lat lon = get_osm_administrative_areas e lat lon"
proof -
  have p1: "\<forall>els. overpass_get e lat lon = Response (Some els) \<longrightarrow>
      mset (get_osm_administrative_areas e lat lon) =
        mset (List.map_filter (element_area e) els) \<and>
      length (get_osm_administrative_areas e lat lon) = length (filter retained els)"
    by (intro allI impI) (rule osm_retained)
  have p2: "\<forall>el. (element_area e el \<noteq> None) = retained el"
    by (intro allI) (rule element_area_retained)
  have p3: "\<forall>el a. element_area e el = Some a \<longrightarrow>
      (\<exists>t. tags el = Some t \<and> t ''wikidata'' = Some (wikidata_id a) \<and> name a = t ''name'')"
    by (intro allI impI) (rule element_area_fields)
  have p4: "(\<exists>m. overpass_get e lat lon = RequestException m) \<or>
    overpass_get e lat lon = Response None \<or> overpass_get e lat lon = Response (Some []) \<longrightarrow>
      get_osm_administrative_areas e lat lon = []"
    by (intro impI) (rule osm_nothing)
  show ?thesis
    by (rule conjI [OF p1 conjI [OF p2 conjI [OF p3 conjI [OF p4 app_osm_eq]]]])
qed

theorem areas_retained_witness:
  "length (get_osm_administrative_areas (sample_env []) 27 87) = 2 \<and>
   length sample_elements = 3 \<and>
   filter retained nameless_elements = [\<lparr>tags = Some [''wikidata'' \<mapsto> ''Q1'']\<rparr>]"
proof -
  have h: "overpass_get (sample_env []) 27 87 = Response (Some sample_elements)"
    by (simp add: sample_env_def)
  note w = areas_retained [of "sample_env []" 27 87, THEN conjunct1, rule_format, OF h,
      THEN conjunct2]
  have "length (filter retained sample_elements) = 2"
    by (simp add: sample_elements_def retained_def)
  with w have "length (get_osm_administrative_areas (sample_env []) 27 87) = 2"
    by simp
  moreover have "length sample_elements = 3"
    by (simp add: sample_elements_def)
  moreover have "filter retained nameless_elements = [\<lparr>tags = Some [''wikidata'' \<mapsto> ''Q1'']\<rparr>]"
    by (simp add: nameless_elements_def retained_def)
  ultimately show ?thesis by simp
qed

section \<open>Top-level failures\<close>

lemma gpd_empty:
  "get_osm_administrative_areas e lat lon = [] \<Longrightarrow>
   get_population_density e lat lon =
     (Returned (Inl ''No administrative areas found for this location.''), [Locate lat lon])"
  by (simp add: get_population_density_def)

lemma gpd_nonempty:
  "get_osm_administrative_areas e lat lon \<noteq> [] \<Longrightarrow>
   fst (get_population_density e lat lon) = fst (try_areas e (get_osm_administrative_areas e lat lon))"
  by (simp add: get_population_density_def Let_def split: prod.splits)

lemma gpd_all_invalid:
  assumes "get_osm_administrative_areas e lat lon \<noteq> []"
    and "all_invalid e (get_osm_administrative_areas e lat lon)"
  shows "fst (get_population_density e lat lon) =
    Returned (Inl ''Could not fetch population or area data from Wikidata for any administrative area.'')"
  using gpd_nonempty [OF assms(1)] try_areas_all_invalid [OF assms(2)] by simp

lemma gpd_error:
  assumes "fst (get_population_density e lat lon) = Returned (Inl m)"
  shows "m = ''No administrative areas found for this location.'' \<and>
      get_osm_administrative_areas e lat lon = [] \<or>
    m = ''Could not fetch population or area data from Wikidata for any administrative area.'' \<and>
      get_osm_administrative_areas e lat lon \<noteq> [] \<and>
      all_invalid e (get_osm_administrative_areas e lat lon)"
proof (cases "get_osm_administrative_areas e lat lon = []")
  case True
  with assms gpd_empty [OF True] show ?thesis by simp
next
  case False
  from assms gpd_nonempty [OF False]
  have "fst (try_areas e (get_osm_administrative_areas e lat lon)) = Returned (Inl m)"
    by simp
  from try_areas_error [OF this] False show ?thesis by simp
qed

text \<open>
  Claim C4. The two failures that are returned are as the claim says: with an empty
  boundary list the result is the no-administrative-areas error and the only call is the
  boundary lookup; with a list on which every fetch errs it is the could-not-fetch error;
  and an error that is returned is one of the two (the lemmas above). A third failure
  surfaces, as an exception: the \<^verbatim>\<open>OverflowError\<close> of a fetch on a record whose population
  is beyond the float range leaves \<^verbatim>\<open>get_population_density\<close>, which has no handler. With
  such a record for the first area, both copies raise after the first fetch.
\<close>

theorem resolution_raises_overflow:
  "get_osm_administrative_areas overflow_env 27 87 = [area_A, area_B] \<and>
   get_population_and_area_wikidata overflow_env ''Q1'' = Raised OverflowError \<and>
   get_population_density overflow_env 27 87 =
     (Raised OverflowError, [Locate 27 87, Fetch ''Q1'']) \<and>
   app_get_population_density overflow_env 27 87 =
     (Raised OverflowError, [Locate 27 87, Fetch ''Q1''])"
proof -
  have areas: "get_osm_administrative_areas overflow_env 27 87 = [area_A, area_B]"
    by (simp add: overflow_env_def get_osm_administrative_areas_def sample_env_def
        sample_elements_def sorted_reverse_def element_area_def parse_admin_level_def
        sample_int_def huge_population_def area_A_def area_B_def)
  have fetch: "get_population_and_area_wikidata overflow_env ''Q1'' = Raised OverflowError"
    by (simp add: overflow_env_def sample_defs huge_population_def)
  from areas fetch have "get_population_density overflow_env 27 87 =
     (Raised OverflowError, [Locate 27 87, Fetch ''Q1''])"
    by (simp add: get_population_density_def area_A_def)
  with areas fetch show ?thesis by (simp add: app_get_population_density_eq)
qed

end
